theory Spec2Isabelle
  imports Main
begin

section \<open>Bytes, text and exceptions\<close>

text \<open>
  A Python \<open>bytes\<close> object is a list of 8-bit characters. A Python \<open>str\<close> is modelled
  as a list of code points below 256 (the Latin-1 range), which is what a HOL
  \<open>string\<close> holds.
\<close>

type_synonym bytes = "char list"

text \<open>\<open>data.endswith(suffix)\<close> on bytes.\<close>

definition endswith :: "bytes \<Rightarrow> bytes \<Rightarrow> bool" where
  "endswith data sfx =
     (length sfx \<le> length data \<and> drop (length data - length sfx) data = sfx)"

text \<open>\<open>data.startswith(p)\<close>, used by the substring test below.\<close>

definition startswith :: "bytes \<Rightarrow> bytes \<Rightarrow> bool" where
  "startswith data p = (take (length p) data = p)"

text \<open>\<open>pat in data\<close> on bytes: \<open>pat\<close> occurs as a contiguous block of \<open>data\<close>.\<close>

fun bytes_in :: "bytes \<Rightarrow> bytes \<Rightarrow> bool" where
  "bytes_in pat [] = (pat = [])"
| "bytes_in pat (c # cs) = (startswith (c # cs) pat \<or> bytes_in pat cs)"

text \<open>
  The arguments an exception is raised with: \<open>PyboardError('exception', ret, ret_err)\<close>
  carries one text and two byte strings, every other raise of the module one text.
\<close>

datatype py_arg = Str string | Bytes bytes

text \<open>
  \<open>class PyboardError(BaseException)\<close> is the only exception class of the module.
  \<open>UnicodeEncodeError\<close> is what \<open>bytes(text, 'ascii')\<close> raises on a character that is
  not ASCII.
\<close>

datatype exn = PyboardError "py_arg list" | UnicodeEncodeError

text \<open>\<open>bytes(text, 'ascii')\<close>.\<close>

definition ascii_encode :: "string \<Rightarrow> exn + bytes" where
  "ascii_encode text =
     (if list_all (\<lambda>c. (of_char c :: nat) < 128) text then Inr text
      else Inl UnicodeEncodeError)"

text \<open>
  \<open>bytes(text, encoding='utf8')\<close> on code points below 256: one byte below 128, two
  bytes from 128 on.
\<close>

fun utf8_encode :: "string \<Rightarrow> bytes" where
  "utf8_encode [] = []"
| "utf8_encode (c # cs) =
     (let n = (of_char c :: nat) in
      if n < 128 then c # utf8_encode cs
      else char_of (192 + n div 64) # char_of (128 + n mod 64) # utf8_encode cs)"

text \<open>A timeout in seconds, or \<open>None\<close>.\<close>

type_synonym timeout = "int option"

section \<open>The serial channel\<close>

text \<open>
  \<open>Pyboard.serial\<close> is an object of the serial library, which is not part of the
  sources. Its methods are taken as parameters: each acts on the state \<open>'s\<close> of the
  line and returns the new state, together with the bytes read where it reads.
\<close>

record 's serial_ops =
  ser_read_until :: "bytes \<Rightarrow> 's \<Rightarrow> bytes \<times> 's"
  ser_read :: "nat \<Rightarrow> 's \<Rightarrow> bytes \<times> 's"
  ser_read_all :: "'s \<Rightarrow> bytes \<times> 's"
  ser_write :: "bytes \<Rightarrow> 's \<Rightarrow> 's"
  ser_flushInput :: "'s \<Rightarrow> 's"

text \<open>
  A data consumer is an optional callback; its effect is a change of the state \<open>'k\<close> of
  the sink it writes to.
\<close>

type_synonym 'k consumer = "(bytes \<Rightarrow> 'k \<Rightarrow> 'k) option"

section \<open>Pyboard\<close>

text \<open>
  \<open>Pyboard.read_until(min_num_bytes, ending, timeout=10, data_consumer=None)\<close>.
  The result is the data read, the state of the line and the state of the sink.
\<close>

definition read_until ::
  "'s serial_ops \<Rightarrow> nat \<Rightarrow> bytes \<Rightarrow> timeout \<Rightarrow> 'k consumer \<Rightarrow> 's \<Rightarrow> 'k \<Rightarrow> bytes \<times> 's \<times> 'k"
where
  "read_until ops min_num_bytes ending timeout data_consumer s k =
     (case ser_read_until ops ending s of
        (data, s') \<Rightarrow>
          (case data_consumer of
             Some consume \<Rightarrow> (data, s', consume data k)
           | None \<Rightarrow> (data, s', k)))"

text \<open>
  \<open>Pyboard.follow(timeout, data_consumer=None)\<close>. \<open>data[:-1]\<close> is \<open>butlast data\<close>.
  A raise leaves the line and the sink as they are at that point.
\<close>

definition follow ::
  "'s serial_ops \<Rightarrow> timeout \<Rightarrow> 'k consumer \<Rightarrow> 's \<Rightarrow> 'k \<Rightarrow> (exn + bytes \<times> bytes) \<times> 's \<times> 'k"
where
  "follow ops timeout data_consumer s k =
     (case read_until ops 1 [CHR 0x04] timeout data_consumer s k of
        (data, s1, k1) \<Rightarrow>
          if \<not> endswith data [CHR 0x04]
          then (Inl (PyboardError [Str ''timeout waiting for first EOF reception'']), s1, k1)
          else
            (case read_until ops 1 [CHR 0x04] timeout None s1 k1 of
               (data_err, s2, k2) \<Rightarrow>
                 if \<not> endswith data_err [CHR 0x04]
                 then (Inl (PyboardError [Str ''timeout waiting for second EOF reception'']),
                       s2, k2)
                 else (Inr (butlast data, butlast data_err), ser_flushInput ops s2, k2)))"

text \<open>
  What \<open>if x:\<close> tests. \<open>self.isPrompt\<close> without a call is the bound method itself, and
  a method object is true whatever the method would return.
\<close>

datatype 's py_value = PyBool bool | BoundMethod "'s \<Rightarrow> bool \<times> 's"

fun truthy :: "'s py_value \<Rightarrow> bool" where
  "truthy (PyBool b) = b"
| "truthy (BoundMethod m) = True"

text \<open>\<open>Pyboard.isPrompt()\<close>.\<close>

definition isPrompt :: "'s serial_ops \<Rightarrow> 's \<Rightarrow> bool \<times> 's" where
  "isPrompt ops s =
     (case ser_read_all ops s of
        (data, s') \<Rightarrow> if data = ''>'' then (True, s') else (False, s'))"

text \<open>The literal \<open>b'raw REPL; CTRL-B to exit\r\n'\<close>.\<close>

definition raw_repl_banner :: bytes where
  "raw_repl_banner = ''raw REPL; CTRL-B to exit'' @ [CHR 0x0D, CHR 0x0A]"

text \<open>
  \<open>Pyboard.enter_raw_repl()\<close>. The pause of \<open>_rawdelay\<close> seconds changes no state and is
  left out.
\<close>

definition enter_raw_repl :: "'s serial_ops \<Rightarrow> 's \<Rightarrow> (exn + unit) \<times> 's" where
  "enter_raw_repl ops s =
     (let s1 = ser_write ops [CHR 0x0D, CHR 0x03, CHR 0x03] s;
          s2 = ser_flushInput ops s1;
          s3 = ser_write ops [CHR 0x0D, CHR 0x01] s2
      in case read_until ops 1 raw_repl_banner (Some 10) None s3 () of
           (data, s4, _) \<Rightarrow>
             if \<not> endswith data raw_repl_banner
             then (Inl (PyboardError [Str ''could not enter raw repl'']), s4)
             else if \<not> truthy (BoundMethod (isPrompt ops))
             then (Inl (PyboardError [Str ''could not enter raw repl'']), s4)
             else (Inr (), ser_flushInput ops s4))"

text \<open>\<open>Pyboard.exit_raw_repl()\<close>.\<close>

definition exit_raw_repl :: "'s serial_ops \<Rightarrow> 's \<Rightarrow> 's" where
  "exit_raw_repl ops s = ser_write ops [CHR 0x0D, CHR 0x02] s"

text \<open>A command is given as bytes or as text.\<close>

datatype command = CmdBytes bytes | CmdStr string

text \<open>The first lines of \<open>exec_raw_no_follow\<close>: text is encoded, bytes are taken as they are.\<close>

fun command_bytes :: "command \<Rightarrow> bytes" where
  "command_bytes (CmdBytes b) = b"
| "command_bytes (CmdStr t) = utf8_encode t"

text \<open>
  The loop \<open>for i in range(0, len(command_bytes), 256)\<close>, from index \<open>i\<close> on; the slice
  \<open>command_bytes[i:min(i + 256, len(command_bytes))]\<close> is written at each step. The
  pause of 10 ms changes no state.
\<close>

function write_chunks :: "'s serial_ops \<Rightarrow> bytes \<Rightarrow> nat \<Rightarrow> 's \<Rightarrow> 's" where
  "write_chunks ops cb i s =
     (if i < length cb
      then write_chunks ops cb (i + 256)
             (ser_write ops (drop i (take (min (i + 256) (length cb)) cb)) s)
      else s)"
  by pat_completeness auto
termination
  by (relation "measure (\<lambda>(ops, cb, i, s). length cb - i)") auto

declare write_chunks.simps [simp del]

text \<open>\<open>Pyboard.exec_raw_no_follow(command)\<close>.\<close>

definition exec_raw_no_follow :: "'s serial_ops \<Rightarrow> command \<Rightarrow> 's \<Rightarrow> (exn + unit) \<times> 's" where
  "exec_raw_no_follow ops command s =
     (let cb = command_bytes command;
          s1 = write_chunks ops cb 0 s;
          s2 = ser_write ops [CHR 0x04] s1
      in case ser_read ops 2 s2 of
           (data, s3) \<Rightarrow>
             if data \<noteq> ''OK''
             then (Inl (PyboardError [Str ''could not exec command'']), s3)
             else (Inr (), s3))"

text \<open>\<open>Pyboard.exec_raw(command, timeout=10, data_consumer=None)\<close>.\<close>

definition exec_raw ::
  "'s serial_ops \<Rightarrow> command \<Rightarrow> timeout \<Rightarrow> 'k consumer \<Rightarrow> 's \<Rightarrow> 'k \<Rightarrow>
     (exn + bytes \<times> bytes) \<times> 's \<times> 'k"
where
  "exec_raw ops command timeout data_consumer s k =
     (case exec_raw_no_follow ops command s of
        (Inl e, s1) \<Rightarrow> (Inl e, s1, k)
      | (Inr _, s1) \<Rightarrow> follow ops timeout data_consumer s1 k)"

text \<open>
  \<open>Pyboard.exec_(command)\<close>, which the module also binds to the name \<open>exec\<close>. It calls
  \<open>exec_raw\<close> with the default timeout and no consumer, so there is no sink.
\<close>

definition exec :: "'s serial_ops \<Rightarrow> command \<Rightarrow> 's \<Rightarrow> (exn + bytes) \<times> 's" where
  "exec ops command s =
     (case exec_raw ops command (Some 10) None s () of
        (Inl e, s', _) \<Rightarrow> (Inl e, s')
      | (Inr (ret, ret_err), s', _) \<Rightarrow>
          if ret_err \<noteq> []
          then (Inl (PyboardError [Str ''exception'', Bytes ret, Bytes ret_err]), s')
          else (Inr ret, s'))"

section \<open>Choice of the transport\<close>

text \<open>
  \<open>str.isdigit()\<close> on one character. Below 256 the digits of Python are \<open>0\<close> to \<open>9\<close>
  and the superscripts U+00B2, U+00B3 and U+00B9.
\<close>

definition isdigit :: "char \<Rightarrow> bool" where
  "isdigit c =
     (let n = (of_char c :: nat) in (48 \<le> n \<and> n \<le> 57) \<or> n = 178 \<or> n = 179 \<or> n = 185)"

text \<open>The two branches of \<open>Pyboard.__init__\<close>.\<close>

datatype transport = TelnetTransport | SerialTransport

text \<open>
  The test of \<open>Pyboard.__init__\<close>:
  \<open>device and device[0].isdigit() and device[-1].isdigit() and device.count('.') == 3\<close>.
  An empty \<open>device\<close> is false, so no character of it is read.
\<close>

definition select_transport :: "string \<Rightarrow> transport" where
  "select_transport device =
     (case device of
        [] \<Rightarrow> SerialTransport
      | c # cs \<Rightarrow>
          if isdigit c \<and> isdigit (last (c # cs)) \<and> count_list (c # cs) (CHR ''.'') = 3
          then TelnetTransport else SerialTransport)"

section \<open>TelnetToSerial\<close>

text \<open>
  \<open>TelnetToSerial.tn\<close> is a connection of the telnet library, which is not part of the
  sources. Its methods are parameters acting on the state \<open>'t\<close> of the connection.
\<close>

record 't telnet_ops =
  tn_read_until :: "bytes \<Rightarrow> timeout \<Rightarrow> 't \<Rightarrow> bytes \<times> 't"
  tn_read_eager :: "'t \<Rightarrow> bytes \<times> 't"
  tn_write :: "bytes \<Rightarrow> 't \<Rightarrow> 't"

text \<open>The attributes of a constructed \<open>TelnetToSerial\<close>.\<close>

record 't TelnetToSerial =
  tn :: 't
  read_timeout :: timeout
  fifo :: bytes

text \<open>The one \<open>raise\<close> at the end of \<open>TelnetToSerial.__init__\<close>.\<close>

definition telnet_failed :: exn where
  "telnet_failed = PyboardError [Str ''Failed to establish a telnet connection with the board'']"

text \<open>
  \<open>TelnetToSerial.__init__(ip, user, password, read_timeout)\<close>, from the opened
  connection \<open>tn0\<close> on. A raise gives the exception and the state of the connection at
  that point; no object exists then. The pause of 0.2 s changes no state.
\<close>

definition TelnetToSerial_init ::
  "'t telnet_ops \<Rightarrow> 't \<Rightarrow> string \<Rightarrow> string \<Rightarrow> timeout \<Rightarrow> exn \<times> 't + 't TelnetToSerial"
where
  "TelnetToSerial_init ops tn0 user password rt =
     (case tn_read_until ops ''Login as:'' rt tn0 of
        (r1, tn1) \<Rightarrow>
          if bytes_in ''Login as:'' r1 then
            (case ascii_encode user of
               Inl e \<Rightarrow> Inl (e, tn1)
             | Inr u \<Rightarrow>
                 (case tn_read_until ops ''Password:'' rt
                         (tn_write ops (u @ [CHR 0x0D, CHR 0x0A]) tn1) of
                    (r2, tn3) \<Rightarrow>
                      if bytes_in ''Password:'' r2 then
                        (case ascii_encode password of
                           Inl e \<Rightarrow> Inl (e, tn3)
                         | Inr p \<Rightarrow>
                             (case tn_read_until ops
                                     (''Type '' @ [CHR 0x22] @ ''help()'' @ [CHR 0x22]
                                        @ '' for more information.'') rt
                                     (tn_write ops (p @ [CHR 0x0D, CHR 0x0A]) tn3) of
                                (r3, tn5) \<Rightarrow>
                                  if bytes_in ''for more information.'' r3
                                  then Inr \<lparr>tn = tn5, read_timeout = rt, fifo = []\<rparr>
                                  else Inl (telnet_failed, tn5)))
                      else Inl (telnet_failed, tn3)))
          else Inl (telnet_failed, tn1))"

text \<open>
  The first loop of \<open>TelnetToSerial.read\<close>, \<open>while len(self.fifo) < size\<close>. The loop
  ends when the test fails or at the \<open>break\<close>; \<open>None\<close> is a loop that never ends.
  \<open>timeout_count\<close> is the variable of the source: it is set to 0 at the top of every
  pass, before it is compared. \<open>sz\<close> is the argument \<open>size\<close>. The pause of 0.25 s
  changes no state.
\<close>

partial_function (option) read_poll ::
  "'t telnet_ops \<Rightarrow> timeout \<Rightarrow> int \<Rightarrow> bytes \<Rightarrow> 't \<Rightarrow> int \<Rightarrow> (bytes \<times> 't) option"
where
  "read_poll ops rt sz fifo0 tn0 timeout_count0 =
     (if int (length fifo0) < sz then
        (let timeout_count = 0 in
         case tn_read_eager ops tn0 of
           (data, tn1) \<Rightarrow>
             if length data \<noteq> 0 then read_poll ops rt sz (fifo0 @ data) tn1 0
             else
               (case rt of
                  None \<Rightarrow> read_poll ops rt sz fifo0 tn1 (timeout_count + 1)
                | Some t \<Rightarrow>
                    if timeout_count > 4 * t then Some (fifo0, tn1)
                    else read_poll ops rt sz fifo0 tn1 (timeout_count + 1)))
      else Some (fifo0, tn0))"

text \<open>
  The second loop of \<open>TelnetToSerial.read\<close>,
  \<open>while len(data) < size and len(self.fifo) > 0\<close>: bytes move from the head of the
  FIFO to \<open>data\<close>.
\<close>

fun read_pop :: "int \<Rightarrow> bytes \<Rightarrow> bytes \<Rightarrow> bytes \<times> bytes" where
  "read_pop sz data [] = (data, [])"
| "read_pop sz data (b # rest) =
     (if int (length data) < sz then read_pop sz (data @ [b]) rest
      else (data, b # rest))"

text \<open>\<open>TelnetToSerial.read(size=1)\<close>: \<open>None\<close> when the call never returns.\<close>

definition TelnetToSerial_read ::
  "'t telnet_ops \<Rightarrow> 't TelnetToSerial \<Rightarrow> int \<Rightarrow> (bytes \<times> 't TelnetToSerial) option"
where
  "TelnetToSerial_read ops self sz =
     (case read_poll ops (read_timeout self) sz (fifo self) (tn self) 0 of
        None \<Rightarrow> None
      | Some (fifo1, tn1) \<Rightarrow>
          (case read_pop sz [] fifo1 of
             (data, fifo2) \<Rightarrow> Some (data, self\<lparr>tn := tn1, fifo := fifo2\<rparr>)))"

section \<open>Test doubles\<close>

text \<open>
  Modelled from the spec: the serial line behind \<open>Pyboard.serial\<close>, whose code is in the
  serial library and not in the sources. \<open>rx\<close> holds the bytes that reach the host
  before a read gives up, \<open>tx\<close> the payload of every write so far, in order. Reading
  until an ending takes bytes one at a time until the line read ends with the
  ending or no byte is left; reading \<open>n\<close> bytes takes at most \<open>n\<close>; flushing the
  input drops what is there.
\<close>

record sim_serial =
  rx :: bytes
  tx :: "bytes list"

fun sim_read_until_loop :: "bytes \<Rightarrow> bytes \<Rightarrow> bytes \<Rightarrow> bytes \<times> bytes" where
  "sim_read_until_loop ending line [] = (line, [])"
| "sim_read_until_loop ending line (c # rest) =
     (if ending \<noteq> [] \<and> endswith (line @ [c]) ending then (line @ [c], rest)
      else sim_read_until_loop ending (line @ [c]) rest)"

definition sim_ops :: "sim_serial serial_ops" where
  "sim_ops =
     \<lparr>ser_read_until =
        (\<lambda>ending s. case sim_read_until_loop ending [] (rx s) of
                       (line, rest) \<Rightarrow> (line, s\<lparr>rx := rest\<rparr>)),
      ser_read = (\<lambda>n s. (take n (rx s), s\<lparr>rx := drop n (rx s)\<rparr>)),
      ser_read_all = (\<lambda>s. (rx s, s\<lparr>rx := []\<rparr>)),
      ser_write = (\<lambda>data s. s\<lparr>tx := tx s @ [data]\<rparr>),
      ser_flushInput = (\<lambda>s. s\<lparr>rx := []\<rparr>)\<rparr>"

text \<open>
  Modelled from the spec: a well-behaved device double in place of the serial library's
  line, which is not in the sources. It answers every read up to an ending with that
  ending, has nothing else to read and accepts every write.
\<close>

definition echo_ops :: "unit serial_ops" where
  "echo_ops =
     \<lparr>ser_read_until = (\<lambda>ending s. (ending, s)),
      ser_read = (\<lambda>n s. ([], s)),
      ser_read_all = (\<lambda>s. ([], s)),
      ser_write = (\<lambda>data s. s),
      ser_flushInput = (\<lambda>s. s)\<rparr>"

text \<open>
  Modelled from the spec: a device double in place of the serial library's line, which
  is not in the sources. It is the recording line above, and it answers \<open>OK\<close> when
  the single byte 0x04 is written to it, not before.
\<close>

definition ack_ops :: "sim_serial serial_ops" where
  "ack_ops =
     sim_ops\<lparr>ser_write :=
       (\<lambda>data s. s\<lparr>tx := tx s @ [data],
                     rx := rx s @ (if data = [CHR 0x04] then ''OK'' else [])\<rparr>)\<rparr>"

text \<open>
  Modelled from the spec: a fake telnet connection, whose code is in the telnet library
  and not in the sources. Its state is the list of answers still to come: every read
  takes the next one, and returns no byte once the list is empty. Writes are accepted
  and change nothing.
\<close>

definition fake_telnet :: "bytes list telnet_ops" where
  "fake_telnet =
     \<lparr>tn_read_until = (\<lambda>match t st. case st of [] \<Rightarrow> ([], []) | r # rs \<Rightarrow> (r, rs)),
      tn_read_eager = (\<lambda>st. case st of [] \<Rightarrow> ([], []) | r # rs \<Rightarrow> (r, rs)),
      tn_write = (\<lambda>data st. st)\<rparr>"

section \<open>Facts about the test doubles\<close>

lemma endswith_snoc_single: "endswith (xs @ [c]) [d] \<longleftrightarrow> c = d"
  by (simp add: endswith_def)

lemma sim_read_until_loop_sentinel:
  "d \<notin> set out \<Longrightarrow>
   sim_read_until_loop [d] line (out @ d # rest) = (line @ out @ [d], rest)"
  by (induction out arbitrary: line) (auto simp: endswith_snoc_single)

lemma sim_ser_read_until_sentinel:
  assumes "rx s = out @ d # rest" and "d \<notin> set out"
  shows "ser_read_until sim_ops [d] s = (out @ [d], s\<lparr>rx := rest\<rparr>)"
  using assms by (simp add: sim_ops_def sim_read_until_loop_sentinel)

lemma sim_ser_write: "ser_write sim_ops d s = s\<lparr>tx := tx s @ [d]\<rparr>"
  by (simp add: sim_ops_def)

lemma sim_ser_read: "ser_read sim_ops n s = (take n (rx s), s\<lparr>rx := drop n (rx s)\<rparr>)"
  by (simp add: sim_ops_def)

lemma sim_ser_flushInput: "ser_flushInput sim_ops s = s\<lparr>rx := []\<rparr>"
  by (simp add: sim_ops_def)

section \<open>The framed response\<close>

text \<open>
  On a line that holds the normal output, the sentinel, the error output and the
  sentinel again, \<open>follow\<close> returns the two outputs, leaves the line empty and hands
  the first read (sentinel included) to the consumer, if there is one.
\<close>

lemma follow_sim_framed:
  assumes "rx s = out @ [CHR 0x04] @ err @ [CHR 0x04]"
    and "CHR 0x04 \<notin> set out" and "CHR 0x04 \<notin> set err"
  shows "follow sim_ops timeout data_consumer s k =
           (Inr (out, err), s\<lparr>rx := []\<rparr>,
            (case data_consumer of None \<Rightarrow> k | Some consume \<Rightarrow> consume (out @ [CHR 0x04]) k))"
proof -
  have r1: "ser_read_until sim_ops [CHR 0x04] s = (out @ [CHR 0x04], s\<lparr>rx := err @ [CHR 0x04]\<rparr>)"
    using assms(1,2) by (simp add: sim_ser_read_until_sentinel)
  have r2: "ser_read_until sim_ops [CHR 0x04] (s\<lparr>rx := err @ [CHR 0x04]\<rparr>) =
              (err @ [CHR 0x04], s\<lparr>rx := []\<rparr>)"
    using assms(3) sim_ser_read_until_sentinel [of "s\<lparr>rx := err @ [CHR 0x04]\<rparr>" err "CHR 0x04" "[]"]
    by simp
  show ?thesis
    by (cases data_consumer)
       (simp_all add: follow_def read_until_def r1 r2 endswith_snoc_single sim_ser_flushInput)
qed

text \<open>
  Claim C1. The byte 0x04 is the delimiter of the response: it occurs twice, after the
  normal output and after the error output, and in neither of them. On every such
  stream \<open>follow\<close> returns the pair of the normal output and the error output, both
  without their sentinel, whatever the timeout and the consumer. On
  \<open>b"hello" + 0x04 + b"" + 0x04\<close> it returns \<open>b"hello"\<close> and \<open>b""\<close>.
\<close>

theorem follow_framed_stream:
  assumes "rx s = out @ [CHR 0x04] @ err @ [CHR 0x04]"
    and "CHR 0x04 \<notin> set out" and "CHR 0x04 \<notin> set err"
  shows "fst (follow sim_ops timeout data_consumer s k) = Inr (out, err) \<and>
         fst (follow sim_ops timeout data_consumer
                \<lparr>rx = ''hello'' @ [CHR 0x04] @ [] @ [CHR 0x04], tx = w\<rparr> k) = Inr (''hello'', [])"
proof -
  have "fst (follow sim_ops timeout data_consumer
                \<lparr>rx = ''hello'' @ [CHR 0x04] @ [] @ [CHR 0x04], tx = w\<rparr> k) = Inr (''hello'', [])"
    by (subst follow_sim_framed [where out = "''hello''" and err = "[]"]) simp_all
  then show ?thesis
    using assms by (simp add: follow_sim_framed)
qed

theorem follow_framed_stream_witness:
  "fst (follow sim_ops (Some 10) None
          \<lparr>rx = ''out'' @ [CHR 0x04] @ ''err'' @ [CHR 0x04], tx = []\<rparr> ())
     = Inr (''out'', ''err'')"
  using follow_framed_stream [of "\<lparr>rx = ''out'' @ [CHR 0x04] @ ''err'' @ [CHR 0x04], tx = []\<rparr>"
      "''out''" "''err''" "Some 10" None "()"]
  by simp

text \<open>
  Claim C4. Whatever the line does: when the data of the first read does not end with
  0x04, \<open>follow\<close> raises \<open>PyboardError('timeout waiting for first EOF reception')\<close>, so
  it returns no pair; when the first read ends with 0x04 and the data of the second
  read does not, it raises \<open>PyboardError('timeout waiting for second EOF reception')\<close>.
\<close>

theorem follow_timeout_errors:
  "(\<not> endswith (fst (ser_read_until ops [CHR 0x04] s)) [CHR 0x04] \<longrightarrow>
      fst (follow ops timeout data_consumer s k) =
        Inl (PyboardError [Str ''timeout waiting for first EOF reception''])) \<and>
   (endswith (fst (ser_read_until ops [CHR 0x04] s)) [CHR 0x04] \<and>
    \<not> endswith (fst (ser_read_until ops [CHR 0x04] (snd (ser_read_until ops [CHR 0x04] s))))
        [CHR 0x04] \<longrightarrow>
      fst (follow ops timeout data_consumer s k) =
        Inl (PyboardError [Str ''timeout waiting for second EOF reception'']))"
  by (cases data_consumer) (auto simp: follow_def read_until_def split: prod.splits)

theorem follow_timeout_errors_witness:
  "fst (follow sim_ops (Some 10) None \<lparr>rx = ''partial'', tx = []\<rparr> ()) =
     Inl (PyboardError [Str ''timeout waiting for first EOF reception'']) \<and>
   fst (follow sim_ops (Some 10) None \<lparr>rx = ''out'' @ [CHR 0x04] @ ''partial'', tx = []\<rparr> ()) =
     Inl (PyboardError [Str ''timeout waiting for second EOF reception''])"
  using follow_timeout_errors [of sim_ops "\<lparr>rx = ''partial'', tx = []\<rparr>" "Some 10" None "()"]
    follow_timeout_errors [of sim_ops "\<lparr>rx = ''out'' @ [CHR 0x04] @ ''partial'', tx = []\<rparr>"
      "Some 10" None "()"]
  by (simp add: sim_ops_def endswith_def)

text \<open>
  Claim C10. \<open>read_until\<close> passes neither \<open>min_num_bytes\<close> nor \<open>timeout\<close> on to the
  line, so on every line and with every consumer two runs of \<open>follow\<close> that differ in
  the timeout only give the same result: the same pair or the same error, and the same
  state of the line and of the sink.
\<close>

theorem follow_ignores_timeout:
  "read_until ops m1 ending t1 data_consumer s k = read_until ops m2 ending t2 data_consumer s k \<and>
   follow ops t1 data_consumer s k = follow ops t2 data_consumer s k"
  unfolding follow_def read_until_def by simp

theorem follow_ignores_timeout_witness:
  "follow sim_ops (Some 10) None \<lparr>rx = ''out'' @ [CHR 0x04] @ ''err'' @ [CHR 0x04], tx = []\<rparr> () =
   follow sim_ops None None \<lparr>rx = ''out'' @ [CHR 0x04] @ ''err'' @ [CHR 0x04], tx = []\<rparr> ()"
  using follow_ignores_timeout [of sim_ops 1 "[CHR 0x04]" "Some 10" None
      "\<lparr>rx = ''out'' @ [CHR 0x04] @ ''err'' @ [CHR 0x04], tx = []\<rparr>" "()" 1 None]
  by simp

section \<open>Sending a command\<close>

text \<open>One pass of the loop, and its end.\<close>

lemma write_chunks_step:
  "i < length cb \<Longrightarrow>
   write_chunks ops cb i s =
     write_chunks ops cb (i + 256)
       (ser_write ops (drop i (take (min (i + 256) (length cb)) cb)) s)"
  by (subst write_chunks.simps) simp

lemma write_chunks_done: "\<not> i < length cb \<Longrightarrow> write_chunks ops cb i s = s"
  by (subst write_chunks.simps) simp

text \<open>On the modelled line the loop reads nothing.\<close>

lemma rx_write_chunks: "rx (write_chunks sim_ops cb i s) = rx s"
proof (induction sim_ops cb i s rule: write_chunks.induct)
  case (1 cb i s)
  show ?case
  proof (cases "i < length cb")
    case True
    then show ?thesis using 1 by (simp add: write_chunks_step sim_ser_write)
  next
    case False
    then show ?thesis by (simp add: write_chunks_done)
  qed
qed

text \<open>
  What the loop writes from index \<open>i\<close> on: pieces of at most 256 bytes, none empty,
  all but the last of 256 bytes, which put together are the command from \<open>i\<close> on.
\<close>

lemma tx_write_chunks:
  "\<exists>chunks. tx (write_chunks sim_ops cb i s) = tx s @ chunks \<and>
     concat chunks = drop i cb \<and>
     (\<forall>c \<in> set chunks. 0 < length c \<and> length c \<le> 256) \<and>
     (\<forall>c \<in> set (butlast chunks). length c = 256)"
proof (induction sim_ops cb i s rule: write_chunks.induct)
  case (1 cb i s)
  show ?case
  proof (cases "i < length cb")
    case False
    then have "write_chunks sim_ops cb i s = s" by (rule write_chunks_done)
    with False show ?thesis by (intro exI [of _ "[]"]) simp
  next
    case True
    define c0 where "c0 = drop i (take (min (i + 256) (length cb)) cb)"
    define s1 where "s1 = ser_write sim_ops c0 s"
    have step: "write_chunks sim_ops cb i s = write_chunks sim_ops cb (i + 256) s1"
      using True by (simp add: c0_def s1_def write_chunks_step)
    from 1 [OF True] obtain chunks where
      tx1: "tx (write_chunks sim_ops cb (i + 256) s1) = tx s1 @ chunks"
      and cc: "concat chunks = drop (i + 256) cb"
      and len: "\<forall>c \<in> set chunks. 0 < length c \<and> length c \<le> 256"
      and full: "\<forall>c \<in> set (butlast chunks). length c = 256"
      unfolding c0_def s1_def by blast
    have c0_take: "c0 = take 256 (drop i cb)"
    proof (cases "i + 256 \<le> length cb")
      case True
      then show ?thesis unfolding c0_def by (simp add: drop_take)
    next
      case False
      then have "length (drop i cb) \<le> 256" by simp
      then have "take 256 (drop i cb) = drop i cb" by (rule take_all)
      moreover from False have "c0 = drop i cb" unfolding c0_def by simp
      ultimately show ?thesis by simp
    qed
    have len0: "0 < length c0 \<and> length c0 \<le> 256"
      using True by (simp add: c0_take)
    have cat: "c0 @ drop (i + 256) cb = drop i cb"
    proof -
      have "take 256 (drop i cb) @ drop 256 (drop i cb) = drop i cb"
        by (rule append_take_drop_id)
      moreover have "drop 256 (drop i cb) = drop (i + 256) cb"
        by (simp add: add.commute)
      ultimately show ?thesis unfolding c0_take by simp
    qed
    have last_full: "chunks \<noteq> [] \<Longrightarrow> length c0 = 256"
    proof -
      assume "chunks \<noteq> []"
      with len cc have "drop (i + 256) cb \<noteq> []"
        by (cases chunks) auto
      then show ?thesis by (simp add: c0_take)
    qed
    have tx_s1: "tx s1 = tx s @ [c0]"
      by (simp add: s1_def sim_ser_write)
    have "tx (write_chunks sim_ops cb i s) = tx s @ (c0 # chunks)"
      by (simp add: step tx1 tx_s1)
    moreover have "concat (c0 # chunks) = drop i cb"
      by (simp add: cc cat)
    moreover have "\<forall>c \<in> set (c0 # chunks). 0 < length c \<and> length c \<le> 256"
      using len len0 by simp
    moreover have "\<forall>c \<in> set (butlast (c0 # chunks)). length c = 256"
      using full last_full by simp
    ultimately show ?thesis by blast
  qed
qed

text \<open>
  Claim C3. For every command, of any length, \<open>exec_raw_no_follow\<close> writes the payload
  as successive chunks of at most 256 bytes (none empty, all but the last of exactly
  256 bytes) whose concatenation in order is the payload, and then one write of the
  single byte 0x04. An empty payload gives no chunk.
\<close>

theorem exec_raw_no_follow_chunks:
  "\<exists>chunks. tx (snd (exec_raw_no_follow sim_ops command s)) = tx s @ chunks @ [[CHR 0x04]] \<and>
     concat chunks = command_bytes command \<and>
     (\<forall>c \<in> set chunks. 0 < length c \<and> length c \<le> 256) \<and>
     (\<forall>c \<in> set (butlast chunks). length c = 256)"
proof -
  obtain chunks where
    "tx (write_chunks sim_ops (command_bytes command) 0 s) = tx s @ chunks"
    "concat chunks = command_bytes command"
    "\<forall>c \<in> set chunks. 0 < length c \<and> length c \<le> 256"
    "\<forall>c \<in> set (butlast chunks). length c = 256"
    using tx_write_chunks [of "command_bytes command" 0 s] by auto
  moreover have "tx (snd (exec_raw_no_follow sim_ops command s)) =
      tx (write_chunks sim_ops (command_bytes command) 0 s) @ [[CHR 0x04]]"
    by (simp add: exec_raw_no_follow_def Let_def sim_ser_write sim_ser_read)
  ultimately show ?thesis by auto
qed

theorem exec_raw_no_follow_chunks_witness:
  "\<exists>chunks.
     tx (snd (exec_raw_no_follow sim_ops (CmdBytes (replicate 300 (CHR ''x'')))
                \<lparr>rx = ''OK'', tx = []\<rparr>)) = chunks @ [[CHR 0x04]] \<and>
     concat chunks = replicate 300 (CHR ''x'') \<and>
     list_all (\<lambda>c. 0 < length c \<and> length c \<le> 256) chunks"
  using exec_raw_no_follow_chunks [of "CmdBytes (replicate 300 (CHR ''x''))"
      "\<lparr>rx = ''OK'', tx = []\<rparr>"]
  by (auto simp: list_all_iff)

text \<open>
  Claim C5. On every channel, \<open>exec_raw_no_follow\<close> asks for two bytes, in the state
  the line is in after the chunks and the byte 0x04 have been written. It succeeds if
  and only if the data read is \<open>OK\<close>; on anything else, a shorter read included, it
  raises \<open>PyboardError('could not exec command')\<close>; the line is left as that read
  left it. On the recording line the read takes two bytes (fewer if fewer are there)
  and nothing more, and the last write before it is the byte 0x04.
\<close>

theorem exec_raw_no_follow_ack:
  "exec_raw_no_follow ops command s =
     (let s2 = ser_write ops [CHR 0x04] (write_chunks ops (command_bytes command) 0 s);
          r = ser_read ops 2 s2
      in (if fst r = ''OK'' then Inr ()
          else Inl (PyboardError [Str ''could not exec command'']), snd r)) \<and>
   (fst (exec_raw_no_follow ops command s) = Inr ()) =
     (fst (ser_read ops 2
        (ser_write ops [CHR 0x04] (write_chunks ops (command_bytes command) 0 s))) = ''OK'') \<and>
   fst (exec_raw_no_follow sim_ops command t) =
     (if take 2 (rx t) = ''OK'' then Inr ()
      else Inl (PyboardError [Str ''could not exec command''])) \<and>
   rx (snd (exec_raw_no_follow sim_ops command t)) = drop 2 (rx t) \<and>
   tx (snd (exec_raw_no_follow sim_ops command t)) =
     tx (write_chunks sim_ops (command_bytes command) 0 t) @ [[CHR 0x04]]"
  by (auto simp: exec_raw_no_follow_def Let_def sim_ser_write sim_ser_read rx_write_chunks
      split: prod.splits)

theorem exec_raw_no_follow_ack_witness:
  "exec_raw_no_follow ack_ops (CmdBytes ''print(1)'') \<lparr>rx = [], tx = []\<rparr> =
     (Inr (), \<lparr>rx = [], tx = [''print(1)'', [CHR 0x04]]\<rparr>) \<and>
   exec_raw_no_follow sim_ops (CmdBytes ''print(1)'') \<lparr>rx = ''O'', tx = []\<rparr> =
     (Inl (PyboardError [Str ''could not exec command'']),
      \<lparr>rx = [], tx = [''print(1)'', [CHR 0x04]]\<rparr>)"
proof -
  have a: "write_chunks ack_ops ''print(1)'' 0 \<lparr>rx = [], tx = []\<rparr> =
             \<lparr>rx = [], tx = [''print(1)'']\<rparr>"
    by (simp add: write_chunks_step write_chunks_done ack_ops_def)
  have b: "write_chunks sim_ops ''print(1)'' 0 \<lparr>rx = ''O'', tx = []\<rparr> =
             \<lparr>rx = ''O'', tx = [''print(1)'']\<rparr>"
    by (simp add: write_chunks_step write_chunks_done sim_ser_write)
  have "exec_raw_no_follow ack_ops (CmdBytes ''print(1)'') \<lparr>rx = [], tx = []\<rparr> =
     (Inr (), \<lparr>rx = [], tx = [''print(1)'', [CHR 0x04]]\<rparr>)"
    using exec_raw_no_follow_ack [of ack_ops "CmdBytes ''print(1)''" "\<lparr>rx = [], tx = []\<rparr>",
        THEN conjunct1]
    by (simp add: a Let_def) (simp add: ack_ops_def sim_ops_def)
  moreover have "exec_raw_no_follow sim_ops (CmdBytes ''print(1)'') \<lparr>rx = ''O'', tx = []\<rparr> =
     (Inl (PyboardError [Str ''could not exec command'']),
      \<lparr>rx = [], tx = [''print(1)'', [CHR 0x04]]\<rparr>)"
    using exec_raw_no_follow_ack [of sim_ops "CmdBytes ''print(1)''" "\<lparr>rx = ''O'', tx = []\<rparr>",
        THEN conjunct1]
    by (simp add: b Let_def sim_ser_write sim_ser_read)
  ultimately show ?thesis by simp
qed

section \<open>Executing a command\<close>

text \<open>\<open>exec_raw_no_follow\<close> on the modelled line, in full.\<close>

lemma exec_raw_no_follow_sim:
  "exec_raw_no_follow sim_ops command s =
     (if take 2 (rx s) = ''OK'' then Inr () else Inl (PyboardError [Str ''could not exec command'']),
      (write_chunks sim_ops (command_bytes command) 0 s)
        \<lparr>tx := tx (write_chunks sim_ops (command_bytes command) 0 s) @ [[CHR 0x04]],
         rx := drop 2 (rx s)\<rparr>)"
  by (simp add: exec_raw_no_follow_def Let_def sim_ser_write sim_ser_read rx_write_chunks)

text \<open>A response \<open>OK\<close>, normal output, sentinel, error output, sentinel is split in two.\<close>

lemma exec_raw_sim_framed:
  assumes "rx s = ''OK'' @ out @ [CHR 0x04] @ err @ [CHR 0x04]"
    and "CHR 0x04 \<notin> set out" and "CHR 0x04 \<notin> set err"
  shows "fst (exec_raw sim_ops command timeout data_consumer s k) = Inr (out, err)"
proof -
  obtain s1 where s1: "exec_raw_no_follow sim_ops command s = (Inr (), s1)"
    and rx1: "rx s1 = out @ [CHR 0x04] @ err @ [CHR 0x04]"
    using assms(1) by (simp add: exec_raw_no_follow_sim)
  show ?thesis
    by (simp add: exec_raw_def s1 follow_sim_framed [OF rx1 assms(2,3)])
qed

text \<open>The errors \<open>exec_raw\<close> can raise, on every channel.\<close>

lemma exec_raw_errors:
  assumes "fst (exec_raw ops command timeout data_consumer s k) = Inl e"
  shows "e = PyboardError [Str ''could not exec command''] \<or>
         e = PyboardError [Str ''timeout waiting for first EOF reception''] \<or>
         e = PyboardError [Str ''timeout waiting for second EOF reception'']"
  using assms
  by (auto simp: exec_raw_def exec_raw_no_follow_def follow_def Let_def
      split: prod.splits sum.splits if_splits)

text \<open>
  Claim C6. When the response is \<open>OK\<close>, the normal output, the sentinel, the error
  output and the sentinel, \<open>exec\<close> raises \<open>PyboardError('exception', ret, ret_err)\<close>
  with exactly the two outputs if the error output is not empty, and returns the
  normal output if it is empty. The module has one exception class; the error of a
  failed command is told apart by its arguments: on every channel \<open>exec\<close> raises the
  three-argument \<open>'exception'\<close> error exactly when \<open>exec_raw\<close> returned a pair with a
  non-empty error output, and an error of \<open>exec_raw\<close> itself is passed on unchanged and
  is one of the three one-message protocol errors.
\<close>

theorem exec_remote_error:
  "(rx s = ''OK'' @ out @ [CHR 0x04] @ err @ [CHR 0x04] \<and>
    CHR 0x04 \<notin> set out \<and> CHR 0x04 \<notin> set err \<longrightarrow>
      fst (exec sim_ops command s) =
        (if err \<noteq> [] then Inl (PyboardError [Str ''exception'', Bytes out, Bytes err])
         else Inr out)) \<and>
   ((fst (exec ops c t) = Inl (PyboardError [Str ''exception'', Bytes a, Bytes b])) =
      (fst (exec_raw ops c (Some 10) None t ()) = Inr (a, b) \<and> b \<noteq> [])) \<and>
   (fst (exec_raw ops c (Some 10) None t ()) = Inl e \<longrightarrow>
      fst (exec ops c t) = Inl e \<and>
      (e = PyboardError [Str ''could not exec command''] \<or>
       e = PyboardError [Str ''timeout waiting for first EOF reception''] \<or>
       e = PyboardError [Str ''timeout waiting for second EOF reception'']))"
proof (intro conjI impI)
  assume "rx s = ''OK'' @ out @ [CHR 0x04] @ err @ [CHR 0x04] \<and>
    CHR 0x04 \<notin> set out \<and> CHR 0x04 \<notin> set err"
  then have "fst (exec_raw sim_ops command (Some 10) None s ()) = Inr (out, err)"
    by (simp add: exec_raw_sim_framed)
  then show "fst (exec sim_ops command s) =
        (if err \<noteq> [] then Inl (PyboardError [Str ''exception'', Bytes out, Bytes err])
         else Inr out)"
    by (auto simp: exec_def split: prod.splits sum.splits)
next
  show "(fst (exec ops c t) = Inl (PyboardError [Str ''exception'', Bytes a, Bytes b])) =
      (fst (exec_raw ops c (Some 10) None t ()) = Inr (a, b) \<and> b \<noteq> [])"
  proof (cases "fst (exec_raw ops c (Some 10) None t ())")
    case (Inl e')
    with exec_raw_errors [OF Inl] show ?thesis
      by (auto simp: exec_def split: prod.splits sum.splits)
  next
    case (Inr p)
    then show ?thesis
      by (auto simp: exec_def split: prod.splits sum.splits)
  qed
next
  assume e: "fst (exec_raw ops c (Some 10) None t ()) = Inl e"
  then show "fst (exec ops c t) = Inl e"
    by (auto simp: exec_def split: prod.splits sum.splits)
  from exec_raw_errors [OF e]
  show "e = PyboardError [Str ''could not exec command''] \<or>
       e = PyboardError [Str ''timeout waiting for first EOF reception''] \<or>
       e = PyboardError [Str ''timeout waiting for second EOF reception'']" .
qed

theorem exec_remote_error_witness:
  "fst (exec sim_ops (CmdBytes ''1/0'')
         \<lparr>rx = ''OK'' @ ''out'' @ [CHR 0x04] @ ''ZeroDivisionError'' @ [CHR 0x04], tx = []\<rparr>) =
     Inl (PyboardError [Str ''exception'', Bytes ''out'', Bytes ''ZeroDivisionError'']) \<and>
   fst (exec sim_ops (CmdBytes ''print(1)'')
         \<lparr>rx = ''OK'' @ ''1'' @ [CHR 0x04] @ [] @ [CHR 0x04], tx = []\<rparr>) = Inr ''1'' \<and>
   fst (exec sim_ops (CmdBytes ''print(1)'') \<lparr>rx = ''no'', tx = []\<rparr>) =
     Inl (PyboardError [Str ''could not exec command''])"
proof -
  have e: "fst (exec_raw sim_ops (CmdBytes ''print(1)'') (Some 10) None \<lparr>rx = ''no'', tx = []\<rparr> ()) =
     Inl (PyboardError [Str ''could not exec command''])"
    by (simp add: exec_raw_def exec_raw_no_follow_sim)
  show ?thesis
    using exec_remote_error [of "\<lparr>rx = ''OK'' @ ''out'' @ [CHR 0x04] @ ''ZeroDivisionError'' @ [CHR 0x04], tx = []\<rparr>"
        "''out''" "''ZeroDivisionError''" "CmdBytes ''1/0''"
        sim_ops "CmdBytes ''print(1)''" "\<lparr>rx = ''no'', tx = []\<rparr>" "[]" "[]"
        "PyboardError [Str ''could not exec command'']"]
      exec_remote_error [of "\<lparr>rx = ''OK'' @ ''1'' @ [CHR 0x04] @ [] @ [CHR 0x04], tx = []\<rparr>"
        "''1''" "[]" "CmdBytes ''print(1)''"
        sim_ops "CmdBytes ''print(1)''" "\<lparr>rx = ''no'', tx = []\<rparr>" "[]" "[]"
        "PyboardError [Str ''could not exec command'']"]
      e
    by simp
qed

text \<open>
  Claim C9. In \<open>enter_raw_repl\<close> the test \<open>not self.isPrompt\<close> is applied to the method
  object, which is true, so the second \<open>raise\<close> is never reached: on every channel
  \<open>enter_raw_repl\<close> raises if and only if the data read does not end with
  \<open>b'raw REPL; CTRL-B to exit\r\n'\<close>, and otherwise it returns after flushing the
  input, without \<open>isPrompt\<close> ever reading the line.
\<close>

theorem enter_raw_repl_raises_iff:
  "truthy (BoundMethod (isPrompt ops)) \<and>
   ((\<exists>e. fst (enter_raw_repl ops s) = Inl e) =
      (\<not> endswith
           (fst (ser_read_until ops raw_repl_banner
                   (ser_write ops [CHR 0x0D, CHR 0x01]
                      (ser_flushInput ops (ser_write ops [CHR 0x0D, CHR 0x03, CHR 0x03] s)))))
           raw_repl_banner)) \<and>
   enter_raw_repl ops s =
     (let r = ser_read_until ops raw_repl_banner
                (ser_write ops [CHR 0x0D, CHR 0x01]
                   (ser_flushInput ops (ser_write ops [CHR 0x0D, CHR 0x03, CHR 0x03] s)))
      in if endswith (fst r) raw_repl_banner then (Inr (), ser_flushInput ops (snd r))
         else (Inl (PyboardError [Str ''could not enter raw repl'']), snd r))"
  by (auto simp: enter_raw_repl_def read_until_def Let_def split: prod.splits)

theorem enter_raw_repl_raises_iff_witness:
  "fst (enter_raw_repl echo_ops ()) = Inr () \<and>
   fst (isPrompt echo_ops ()) = False \<and>
   fst (enter_raw_repl sim_ops \<lparr>rx = ''raw REPL; CTRL-B to exit'', tx = []\<rparr>) =
     Inl (PyboardError [Str ''could not enter raw repl''])"
  using enter_raw_repl_raises_iff [of echo_ops "()"]
    enter_raw_repl_raises_iff [of sim_ops "\<lparr>rx = ''raw REPL; CTRL-B to exit'', tx = []\<rparr>"]
  by (simp add: echo_ops_def sim_ops_def endswith_def raw_repl_banner_def isPrompt_def Let_def)

section \<open>The login handshake\<close>

lemma fake_telnet_read_until_Cons: "tn_read_until fake_telnet m t (r # rs) = (r, rs)"
  by (simp add: fake_telnet_def)

lemma fake_telnet_read_until_Nil: "tn_read_until fake_telnet m t [] = ([], [])"
  by (simp add: fake_telnet_def)

lemma fake_telnet_write: "tn_write fake_telnet d st = st"
  by (simp add: fake_telnet_def)

text \<open>
  Claim C7. \<open>r1\<close>, \<open>r2\<close> and \<open>r3\<close> are the three reads of the constructor, each made
  once and in this order, the user name being written between the first and the
  second and the password between the second and the third. The construction
  succeeds only when \<open>Login as:\<close>, \<open>Password:\<close> and \<open>for more information.\<close> are
  found in them, and the object then starts with an empty FIFO. When a read lacks
  its literal the construction raises
  \<open>PyboardError('Failed to establish a telnet connection with the board')\<close> with the
  connection as that read left it: nothing is read or written after it, and no object
  with a FIFO exists. (The user name and the password are ASCII where they are
  written; \<open>bytes(text, 'ascii')\<close> raises on any other text.)
\<close>

theorem TelnetToSerial_init_handshake:
  "let r1 = tn_read_until ops ''Login as:'' rt tn0;
       r2 = tn_read_until ops ''Password:'' rt
              (tn_write ops (user @ [CHR 0x0D, CHR 0x0A]) (snd r1));
       r3 = tn_read_until ops
              (''Type '' @ [CHR 0x22] @ ''help()'' @ [CHR 0x22] @ '' for more information.'') rt
              (tn_write ops (password @ [CHR 0x0D, CHR 0x0A]) (snd r2));
       res = TelnetToSerial_init ops tn0 user password rt
   in (\<forall>relay. res = Inr relay \<longrightarrow>
         bytes_in ''Login as:'' (fst r1) \<and> bytes_in ''Password:'' (fst r2) \<and>
         bytes_in ''for more information.'' (fst r3) \<and>
         relay = \<lparr>tn = snd r3, read_timeout = rt, fifo = []\<rparr>) \<and>
      (\<not> bytes_in ''Login as:'' (fst r1) \<longrightarrow> res = Inl (telnet_failed, snd r1)) \<and>
      (bytes_in ''Login as:'' (fst r1) \<and> ascii_encode user = Inr user \<and>
       \<not> bytes_in ''Password:'' (fst r2) \<longrightarrow> res = Inl (telnet_failed, snd r2)) \<and>
      (bytes_in ''Login as:'' (fst r1) \<and> ascii_encode user = Inr user \<and>
       bytes_in ''Password:'' (fst r2) \<and> ascii_encode password = Inr password \<and>
       \<not> bytes_in ''for more information.'' (fst r3) \<longrightarrow> res = Inl (telnet_failed, snd r3)) \<and>
      (bytes_in ''Login as:'' (fst r1) \<and> ascii_encode user = Inr user \<and>
       bytes_in ''Password:'' (fst r2) \<and> ascii_encode password = Inr password \<and>
       bytes_in ''for more information.'' (fst r3) \<longrightarrow>
         res = Inr \<lparr>tn = snd r3, read_timeout = rt, fifo = []\<rparr>) \<and>
      telnet_failed =
        PyboardError [Str ''Failed to establish a telnet connection with the board'']"
  unfolding Let_def TelnetToSerial_init_def
  by (auto simp: ascii_encode_def telnet_failed_def split: prod.splits sum.splits if_splits)


theorem TelnetToSerial_init_handshake_witness:
  "TelnetToSerial_init fake_telnet
     [''Login as:'', ''Password:'',
      ''Type '' @ [CHR 0x22] @ ''help()'' @ [CHR 0x22] @ '' for more information.'']
     ''micro'' ''python'' (Some 10) =
     Inr \<lparr>tn = [], read_timeout = Some 10, fifo = []\<rparr> \<and>
   TelnetToSerial_init fake_telnet [] ''micro'' ''python'' (Some 10) =
     Inl (PyboardError [Str ''Failed to establish a telnet connection with the board''], [])"
proof -
  note ok = TelnetToSerial_init_handshake [of fake_telnet "Some 10"
      "[''Login as:'', ''Password:'',
        ''Type '' @ [CHR 0x22] @ ''help()'' @ [CHR 0x22] @ '' for more information.'']"
      "''micro''" "''python''",
      unfolded Let_def, THEN conjunct2, THEN conjunct2, THEN conjunct2, THEN conjunct2,
      THEN conjunct1]
  note bad = TelnetToSerial_init_handshake [of fake_telnet "Some 10" "[]" "''micro''" "''python''",
      unfolded Let_def, THEN conjunct2, THEN conjunct1]
  have "TelnetToSerial_init fake_telnet
     [''Login as:'', ''Password:'',
      ''Type '' @ [CHR 0x22] @ ''help()'' @ [CHR 0x22] @ '' for more information.'']
     ''micro'' ''python'' (Some 10) =
     Inr \<lparr>tn = [], read_timeout = Some 10, fifo = []\<rparr>"
    using ok
    by (simp add: fake_telnet_read_until_Cons fake_telnet_write startswith_def ascii_encode_def)
  moreover have "TelnetToSerial_init fake_telnet [] ''micro'' ''python'' (Some 10) =
     Inl (PyboardError [Str ''Failed to establish a telnet connection with the board''], [])"
    using bad by (simp add: fake_telnet_read_until_Nil telnet_failed_def)
  ultimately show ?thesis by simp
qed

section \<open>The poll loop of the relay\<close>

text \<open>
  On a connection that has nothing more to deliver, with a read timeout that is not
  negative (or none), the loop cannot return while the FIFO is short of \<open>sz\<close>:
  \<open>timeout_count\<close> is 0 whenever it is compared with \<open>4 * read_timeout\<close>.
\<close>

lemma read_poll_silent:
  assumes "read_poll ops rt sz f t c = Some y"
  shows "\<not> (ops = fake_telnet \<and> t = [] \<and> int (length f) < sz \<and>
            (case rt of None \<Rightarrow> True | Some r \<Rightarrow> 0 \<le> r))"
proof (rule read_poll.raw_induct
    [where P = "\<lambda>ops rt sz f t c y.
       \<not> (ops = fake_telnet \<and> t = [] \<and> int (length f) < sz \<and>
          (case rt of None \<Rightarrow> True | Some r \<Rightarrow> 0 \<le> r))",
     OF _ assms])
  fix poll :: "bytes list telnet_ops \<Rightarrow> timeout \<Rightarrow> int \<Rightarrow> bytes \<Rightarrow> bytes list \<Rightarrow> int
                 \<Rightarrow> (bytes \<times> bytes list) option"
    and ops rt sz f t c y
  assume IH: "\<And>ops rt sz f t c y. poll ops rt sz f t c = Some y \<Longrightarrow>
       \<not> (ops = fake_telnet \<and> t = [] \<and> int (length f) < sz \<and>
          (case rt of None \<Rightarrow> True | Some r \<Rightarrow> 0 \<le> r))"
    and body: "(if int (length f) < sz then
        (let timeout_count = 0 in
         case tn_read_eager ops t of
           (data, tn1) \<Rightarrow>
             if length data \<noteq> 0 then poll ops rt sz (f @ data) tn1 0
             else
               (case rt of
                  None \<Rightarrow> poll ops rt sz f tn1 (timeout_count + 1)
                | Some r \<Rightarrow>
                    if timeout_count > 4 * r then Some (f, tn1)
                    else poll ops rt sz f tn1 (timeout_count + 1)))
      else Some (f, t)) = Some y"
  show "\<not> (ops = fake_telnet \<and> t = [] \<and> int (length f) < sz \<and>
          (case rt of None \<Rightarrow> True | Some r \<Rightarrow> 0 \<le> r))"
  proof
    assume a: "ops = fake_telnet \<and> t = [] \<and> int (length f) < sz \<and>
            (case rt of None \<Rightarrow> True | Some r \<Rightarrow> 0 \<le> r)"
    then have "poll fake_telnet rt sz f [] 1 = Some y"
      using body by (cases rt) (simp_all add: fake_telnet_def)
    from IH [OF this] a show False by simp
  qed
qed

text \<open>
  Claim C2, on the code. With a read timeout of \<open>t\<close> seconds, \<open>t\<close> not negative, a FIFO
  that holds fewer than \<open>sz\<close> bytes and a connection that delivers nothing,
  \<open>TelnetToSerial.read(sz)\<close> does not return.
\<close>

theorem TelnetToSerial_read_never_returns:
  assumes "0 \<le> t" and "read_timeout self = Some t" and "tn self = []"
    and "int (length (fifo self)) < sz"
  shows "TelnetToSerial_read fake_telnet self sz = None"
proof (cases "read_poll fake_telnet (Some t) sz (fifo self) ([] :: bytes list) 0")
  case None
  then show ?thesis using assms by (simp add: TelnetToSerial_read_def)
next
  case (Some y)
  from read_poll_silent [OF this] assms show ?thesis by simp
qed

theorem TelnetToSerial_read_never_returns_witness:
  "TelnetToSerial_read fake_telnet \<lparr>tn = [], read_timeout = Some 10, fifo = []\<rparr> 1 = None"
  using TelnetToSerial_read_never_returns [of 10 "\<lparr>tn = [], read_timeout = Some 10, fifo = []\<rparr>" 1]
  by simp

section \<open>Choice of the transport\<close>

lemma isdigit_ascii:
  assumes "(of_char c :: nat) < 128"
  shows "isdigit c = (c \<in> set ''0123456789'')"
proof -
  define n where "n = (of_char c :: nat)"
  have eq: "(c = d) = (n = of_char d)" for d
    by (simp add: n_def)
  have "(c \<in> set ''0123456789'') = (48 \<le> n \<and> n \<le> 57)"
    by (simp add: eq) arith
  moreover have "isdigit c = (48 \<le> n \<and> n \<le> 57)"
    using assms by (auto simp: isdigit_def Let_def n_def)
  ultimately show ?thesis by simp
qed

lemma select_transport_Telnet_iff: "(select_transport device = TelnetTransport) =
     (device \<noteq> [] \<and> isdigit (hd device) \<and> isdigit (last device) \<and>
      count_list device (CHR ''.'') = 3)"
  by (cases device) (simp_all add: select_transport_def)

text \<open>
  Claim C8, as stated, fails: the last character of \<open>1.1.1.\<close> followed by the
  superscript two (U+00B2) is no ASCII digit, but \<open>str.isdigit\<close> accepts it and the
  network transport is chosen.
\<close>

theorem select_transport_counterexample:
  "select_transport [CHR ''1'', CHR ''.'', CHR ''1'', CHR ''.'', CHR ''1'', CHR ''.'', CHR 0xB2]
     = TelnetTransport \<and>
   CHR 0xB2 \<notin> set ''0123456789''"
  by (simp add: select_transport_def isdigit_def)

text \<open>
  Claim C8, amended. The network transport is chosen if and only if the address is
  not empty, its first and last characters are digits for \<open>str.isdigit\<close> and it holds
  exactly three \<open>.\<close>; otherwise the serial transport is chosen. When the first and
  the last character are ASCII, they are digits for \<open>str.isdigit\<close> exactly when they
  are among \<open>0\<close> to \<open>9\<close>, which is the rule of the claim. \<open>192.168.1.1\<close> is a network
  target, \<open>/dev/ttyACM0\<close> and \<open>COM3\<close> are serial paths.
\<close>

theorem select_transport_rule:
  "(select_transport device = TelnetTransport) =
     (device \<noteq> [] \<and> isdigit (hd device) \<and> isdigit (last device) \<and>
      count_list device (CHR ''.'') = 3) \<and>
   (select_transport device \<noteq> TelnetTransport \<longrightarrow> select_transport device = SerialTransport) \<and>
   (device \<noteq> [] \<and> (of_char (hd device) :: nat) < 128 \<and> (of_char (last device) :: nat) < 128 \<longrightarrow>
      (select_transport device = TelnetTransport) =
        (hd device \<in> set ''0123456789'' \<and> last device \<in> set ''0123456789'' \<and>
         count_list device (CHR ''.'') = 3)) \<and>
   select_transport ''192.168.1.1'' = TelnetTransport \<and>
   select_transport ''/dev/ttyACM0'' = SerialTransport \<and>
   select_transport ''COM3'' = SerialTransport"
proof (intro conjI impI)
  show "(select_transport device = TelnetTransport) =
     (device \<noteq> [] \<and> isdigit (hd device) \<and> isdigit (last device) \<and>
      count_list device (CHR ''.'') = 3)"
    by (rule select_transport_Telnet_iff)
  show "select_transport device = SerialTransport" if "select_transport device \<noteq> TelnetTransport"
    using that by (cases "select_transport device") simp_all
  show "(select_transport device = TelnetTransport) =
        (hd device \<in> set ''0123456789'' \<and> last device \<in> set ''0123456789'' \<and>
         count_list device (CHR ''.'') = 3)"
    if "device \<noteq> [] \<and> (of_char (hd device) :: nat) < 128 \<and> (of_char (last device) :: nat) < 128"
    using that by (simp only: select_transport_Telnet_iff isdigit_ascii) simp
  show "select_transport ''192.168.1.1'' = TelnetTransport"
    by (simp add: select_transport_def isdigit_def)
  show "select_transport ''/dev/ttyACM0'' = SerialTransport"
    by (simp add: select_transport_def isdigit_def)
  show "select_transport ''COM3'' = SerialTransport"
    by (simp add: select_transport_def isdigit_def)
qed

theorem select_transport_rule_witness:
  "select_transport ''10.0.0.7'' = TelnetTransport \<and>
   select_transport ''10.0.0.x'' = SerialTransport \<and>
   select_transport [] = SerialTransport"
  using select_transport_rule [of "''10.0.0.7''"] select_transport_rule [of "''10.0.0.x''"]
    select_transport_rule [of "[]"]
  by (auto simp: isdigit_def)


end
